theory Spec2Isabelle
  imports Main "HOL-Library.Word"
begin

section \<open>Strings\<close>

text \<open>
  A JavaScript string is a sequence of UTF-16 code units. The two regular expressions of
  the key derivation carry no \<open>u\<close> flag, so they work code unit by code unit, and the model
  does the same. ASCII literals are written as HOL strings and embedded with \<open>js\<close>.
\<close>

type_synonym jschar = "16 word"
type_synonym jsstring = "jschar list"

definition js :: "string \<Rightarrow> jsstring" where
  "js s = map of_char s"

text \<open>
  The class \<open>\s\<close> of an ECMAScript regular expression: TAB, LF, VT, FF, CR, space,
  no-break space, the Unicode space separators, the line and paragraph separators and
  the byte order mark. \<open>String.prototype.trim\<close> removes exactly the same code units.
\<close>

definition isSpace :: "jschar \<Rightarrow> bool" where
  "isSpace c \<longleftrightarrow>
     (0x09 \<le> c \<and> c \<le> 0x0D) \<or> c = 0x20 \<or> c = 0xA0 \<or> c = 0x1680
     \<or> (0x2000 \<le> c \<and> c \<le> 0x200A) \<or> c = 0x2028 \<or> c = 0x2029
     \<or> c = 0x202F \<or> c = 0x205F \<or> c = 0x3000 \<or> c = 0xFEFF"

text \<open>The complement of the negated class \<open>[^a-zA-Z0-9\-\s.]\<close>.\<close>

definition isAllowed :: "jschar \<Rightarrow> bool" where
  "isAllowed c \<longleftrightarrow>
     (0x61 \<le> c \<and> c \<le> 0x7A) \<or> (0x41 \<le> c \<and> c \<le> 0x5A) \<or> (0x30 \<le> c \<and> c \<le> 0x39)
     \<or> c = 0x2D \<or> isSpace c \<or> c = 0x2E"

text \<open>\<open>.replace(/[^a-zA-Z0-9\-\s.]/g, '')\<close>: every code unit outside the class is deleted.\<close>

definition removeSpecial :: "jsstring \<Rightarrow> jsstring" where
  "removeSpecial s = filter isAllowed s"

text \<open>\<open>.replace(/\s+/g, ' ')\<close>: every maximal run of white space becomes one U+0020.\<close>

function collapseSpaces :: "jsstring \<Rightarrow> jsstring" where
  "collapseSpaces [] = []"
| "collapseSpaces (c # cs) =
     (if isSpace c then 0x20 # collapseSpaces (dropWhile isSpace cs)
      else c # collapseSpaces cs)"
  by pat_completeness auto
termination
  by (relation "measure length") (auto simp: length_dropWhile_le less_Suc_eq_le)

text \<open>\<open>.trim()\<close>: white space is removed from both ends.\<close>

definition trim :: "jsstring \<Rightarrow> jsstring" where
  "trim s = rev (dropWhile isSpace (rev (dropWhile isSpace s)))"

text \<open>\<open>a || b\<close> on strings: the empty string is the only falsy string.\<close>

definition orElse :: "jsstring \<Rightarrow> jsstring \<Rightarrow> jsstring" where
  "orElse a b = (if a = [] then b else a)"

section \<open>Video records and the key mapper\<close>

text \<open>
  A catalog record as the program reads it: \<open>videoId\<close> and \<open>title\<close>. A title that is
  \<open>undefined\<close> or \<open>null\<close> is \<open>None\<close>; both are falsy and both survive a JSON round trip.
\<close>

record video =
  videoId :: jsstring
  title :: "jsstring option"

text \<open>\<open>video.title || video.videoId\<close>\<close>

definition titleOrId :: "video \<Rightarrow> jsstring" where
  "titleOrId v = (case title v of None \<Rightarrow> videoId v | Some t \<Rightarrow> orElse t (videoId v))"

text \<open>
  The closure \<open>sanitizeFilename\<close> inside the loop of \<open>transferVideos\<close>; it captures the
  current \<open>video\<close> for its fallback.
\<close>

definition sanitizeFilename_transfer :: "video \<Rightarrow> jsstring \<Rightarrow> jsstring" where
  "sanitizeFilename_transfer v t = orElse (trim (collapseSpaces (removeSpecial t))) (videoId v)"

definition safeTitle_transfer :: "video \<Rightarrow> jsstring" where
  "safeTitle_transfer v = sanitizeFilename_transfer v (titleOrId v)"

definition s3Key_transfer :: "video \<Rightarrow> jsstring" where
  "s3Key_transfer v = js ''api-video-backup/'' @ safeTitle_transfer v @ js '' - '' @ videoId v"

text \<open>The second copy of the same closure, inside the loop of \<open>verifyTransfer\<close>.\<close>

definition sanitizeFilename_verify :: "video \<Rightarrow> jsstring \<Rightarrow> jsstring" where
  "sanitizeFilename_verify v t = orElse (trim (collapseSpaces (removeSpecial t))) (videoId v)"

definition safeTitle_verify :: "video \<Rightarrow> jsstring" where
  "safeTitle_verify v = sanitizeFilename_verify v (titleOrId v)"

definition expectedKey_verify :: "video \<Rightarrow> jsstring" where
  "expectedKey_verify v = js ''api-video-backup/'' @ safeTitle_verify v @ js '' - '' @ videoId v"

section \<open>Errors, external services and program state\<close>

text \<open>A JavaScript \<open>Error\<close>: its message and, for errors of the S3 client, its code.\<close>

datatype error = Error (message: jsstring) (code: "jsstring option")

text \<open>
  The ledger entry written by the program extends the two fields of a video by the
  error message and the time stamp; what the verifier collects extends them by the
  expected key.
\<close>

record ledger_entry = video +
  error :: jsstring
  timestamp :: jsstring

record missing_video = video +
  expectedKey :: jsstring

record http_response =
  statusCode :: nat
  contentLength :: "jsstring option"

record s3_object =
  Key :: jsstring

record s3_listing =
  Contents :: "s3_object list"
  IsTruncated :: bool

text \<open>
  The external collaborators are parameters of the model. Each takes the state of the
  outside world and returns its answer with the new state of the world, so that an
  answer may depend on everything that happened before. \<open>curl_videos\<close> and
  \<open>curl_video\<close> stand for \<open>fetchVideoPage\<close> and \<open>fetchVideoDetails\<close> (a curl process and
  \<open>JSON.parse\<close>): the promise is rejected (\<open>Inl\<close>) or resolved with \<open>response.data\<close>, which
  may be missing, respectively with the value of \<open>assets?.mp4\<close> of the response, which may
  be missing. \<open>json_stringify\<close> and \<open>json_parse\<close> stand for \<open>JSON.stringify\<close> and
  \<open>JSON.parse\<close> on the ledger; \<open>'t\<close> is the type of the text in the ledger file and
  \<open>None\<close> is a \<open>SyntaxError\<close>.
\<close>

record ('w, 't) env =
  curl_videos :: "'w \<Rightarrow> nat \<Rightarrow> (error + video list option) \<times> 'w"
  curl_video :: "'w \<Rightarrow> jsstring \<Rightarrow> (error + jsstring option) \<times> 'w"
  https_get :: "'w \<Rightarrow> jsstring \<Rightarrow> (error + http_response) \<times> 'w"
  s3_upload :: "'w \<Rightarrow> jsstring \<Rightarrow> jsstring option \<Rightarrow> (error + unit) \<times> 'w"
  s3_headObject :: "'w \<Rightarrow> jsstring \<Rightarrow> error option \<times> 'w"
  s3_listObjects :: "'w \<Rightarrow> jsstring \<Rightarrow> jsstring option \<Rightarrow> (error + s3_listing) \<times> 'w"
  setTimeout :: "'w \<Rightarrow> nat \<Rightarrow> 'w"
  date_now :: "'w \<Rightarrow> jsstring \<times> 'w"
  json_stringify :: "ledger_entry list \<Rightarrow> 't"
  json_parse :: "'t \<Rightarrow> ledger_entry list option"

text \<open>
  What the program does to the outside is recorded as a trace: one event at the entry of
  each function of the source that talks to the network or waits.
\<close>

datatype event =
    FetchPage nat
  | FetchDetails jsstring
  | HeadObject jsstring
  | StreamAttempt jsstring jsstring
  | Delay nat
  | ListObjects jsstring "jsstring option"

text \<open>
  The file \<open>failed-videos.json\<close>: absent, present but not readable, or present with a
  text. \<open>writeFileSync\<close> and \<open>unlinkSync\<close> are taken to succeed.
\<close>

datatype 't ledger_file = NoFile | Unreadable | File 't

record ('w, 't) state =
  world :: 'w
  ledgerFile :: "'t ledger_file"
  trace :: "event list"

definition call :: "event \<Rightarrow> ('w \<Rightarrow> 'r \<times> 'w) \<Rightarrow> ('w, 't) state \<Rightarrow> 'r \<times> ('w, 't) state" where
  "call ev f s = (case f (world s) of (r, w') \<Rightarrow> (r, s\<lparr>world := w', trace := trace s @ [ev]\<rparr>))"

definition MAX_RETRIES :: nat where
  "MAX_RETRIES = 3"

definition RETRY_DELAY :: nat where
  "RETRY_DELAY = 5000"

section \<open>Catalog client\<close>

definition fetchVideoPage ::
  "('w, 't) env \<Rightarrow> nat \<Rightarrow> ('w, 't) state \<Rightarrow> (error + video list option) \<times> ('w, 't) state" where
  "fetchVideoPage env page s = call (FetchPage page) (\<lambda>w. curl_videos env w page) s"

definition fetchVideoDetails ::
  "('w, 't) env \<Rightarrow> jsstring \<Rightarrow> ('w, 't) state \<Rightarrow> (error + jsstring option) \<times> ('w, 't) state" where
  "fetchVideoDetails env vid s = call (FetchDetails vid) (\<lambda>w. curl_video env w vid) s"

text \<open>
  The loop of \<open>fetchAllVideos\<close>, with \<open>allVideos\<close> and \<open>currentPage\<close> as arguments. It ends
  when a page is missing, empty or shorter than 100, and when a request fails; on a
  catalog that only ever returns full pages it runs forever, which is \<open>None\<close>.
\<close>

partial_function (option) fetchAllVideos_loop ::
  "('w, 't) env \<Rightarrow> video list \<Rightarrow> nat \<Rightarrow> ('w, 't) state
     \<Rightarrow> ((error + video list) \<times> ('w, 't) state) option" where
  "fetchAllVideos_loop env allVideos currentPage s =
     (case fetchVideoPage env currentPage s of
        (Inl e, s') \<Rightarrow> Some (Inl e, s')
      | (Inr None, s') \<Rightarrow> Some (Inr allVideos, s')
      | (Inr (Some pageData), s') \<Rightarrow>
          if length pageData > 0 then
            if length pageData = 100
            then fetchAllVideos_loop env (allVideos @ pageData) (currentPage + 1) s'
            else Some (Inr (allVideos @ pageData), s')
          else Some (Inr allVideos, s'))"

definition fetchAllVideos ::
  "('w, 't) env \<Rightarrow> ('w, 't) state \<Rightarrow> ((error + video list) \<times> ('w, 't) state) option" where
  "fetchAllVideos env s = fetchAllVideos_loop env [] 1 s"

section \<open>Store client\<close>

text \<open>
  \<open>checkFileExists\<close> wraps \<open>headObject\<close> in a promise that has no \<open>reject\<close>: the callback
  resolves it in each of its three branches.
\<close>

definition checkFileExists ::
  "('w, 't) env \<Rightarrow> jsstring \<Rightarrow> ('w, 't) state \<Rightarrow> (error + bool) \<times> ('w, 't) state" where
  "checkFileExists env s3Key s =
     (case call (HeadObject s3Key) (\<lambda>w. s3_headObject env w s3Key) s of
        (err, s') \<Rightarrow>
          if err \<noteq> None \<and> Option.bind err code = Some (js ''NotFound'') then (Inr False, s')
          else if err \<noteq> None then (Inr False, s')
          else (Inr True, s'))"

text \<open>Decimal digits of a number, for the template literal with the status code.\<close>

function showNat :: "nat \<Rightarrow> jsstring" where
  "showNat n = (if n < 10 then [0x30 + of_nat n] else showNat (n div 10) @ [0x30 + of_nat (n mod 10)])"
  by pat_completeness auto
termination
  by (relation "measure id") auto

declare showNat.simps [simp del]

text \<open>
  \<open>streamToS3\<close>: the download is opened; a transport error or a status other than 200
  rejects; otherwise the response is handed to \<open>s3.upload\<close> with the content length when
  the header is there, and the outcome of the upload settles the promise.
\<close>

definition streamToS3 ::
  "('w, 't) env \<Rightarrow> jsstring \<Rightarrow> jsstring \<Rightarrow> jsstring option \<Rightarrow> ('w, 't) state
     \<Rightarrow> (error + unit) \<times> ('w, 't) state" where
  "streamToS3 env sourceUrl s3Key videoTitle s =
     (case call (StreamAttempt sourceUrl s3Key) (\<lambda>w. https_get env w sourceUrl) s of
        (Inl e, s1) \<Rightarrow> (Inl e, s1)
      | (Inr response, s1) \<Rightarrow>
          if statusCode response \<noteq> 200
          then (Inl (Error (js ''Failed to download: '' @ showNat (statusCode response)) None), s1)
          else
            (case s3_upload env (world s1) s3Key
                    (case contentLength response of
                       None \<Rightarrow> None
                     | Some h \<Rightarrow> if h = [] then None else Some h) of
               (r, w') \<Rightarrow> (r, s1\<lparr>world := w'\<rparr>)))"

definition delay :: "('w, 't) env \<Rightarrow> nat \<Rightarrow> ('w, 't) state \<Rightarrow> ('w, 't) state" where
  "delay env ms s = snd (call (Delay ms) (\<lambda>w. ((), setTimeout env w ms)) s)"

text \<open>The object returned by \<open>streamToS3WithRetry\<close>: \<open>{success: true}\<close> or \<open>{success: false, error}\<close>.\<close>

datatype upload_result = Success | Failure jsstring

function streamToS3WithRetry ::
  "('w, 't) env \<Rightarrow> jsstring \<Rightarrow> jsstring \<Rightarrow> jsstring option \<Rightarrow> nat \<Rightarrow> ('w, 't) state
     \<Rightarrow> upload_result \<times> ('w, 't) state" where
  "streamToS3WithRetry env sourceUrl s3Key videoTitle retries s =
     (case streamToS3 env sourceUrl s3Key videoTitle s of
        (Inr u, s1) \<Rightarrow> (Success, s1)
      | (Inl err, s1) \<Rightarrow>
          if retries < MAX_RETRIES
          then streamToS3WithRetry env sourceUrl s3Key videoTitle (retries + 1) (delay env RETRY_DELAY s1)
          else (Failure (message err), s1))"
  by pat_completeness auto
termination
  by (relation "measure (\<lambda>(env, sourceUrl, s3Key, videoTitle, retries, s). MAX_RETRIES - retries)") auto

declare streamToS3WithRetry.simps [simp del]

section \<open>Failure ledger\<close>

definition loadFailedVideos :: "('w, 't) env \<Rightarrow> ('w, 't) state \<Rightarrow> ledger_entry list" where
  "loadFailedVideos env s =
     (case ledgerFile s of
        NoFile \<Rightarrow> []
      | Unreadable \<Rightarrow> []
      | File data \<Rightarrow> (case json_parse env data of None \<Rightarrow> [] | Some entries \<Rightarrow> entries))"

definition saveFailedVideos ::
  "('w, 't) env \<Rightarrow> ledger_entry list \<Rightarrow> ('w, 't) state \<Rightarrow> ('w, 't) state" where
  "saveFailedVideos env failedVideos s = s\<lparr>ledgerFile := File (json_stringify env failedVideos)\<rparr>"

definition clearFailedLog :: "('w, 't) state \<Rightarrow> ('w, 't) state" where
  "clearFailedLog s = (if ledgerFile s \<noteq> NoFile then s\<lparr>ledgerFile := NoFile\<rparr> else s)"

section \<open>Transfer pipeline\<close>

text \<open>\<open>new Date().toISOString()\<close>\<close>

definition now :: "('w, 't) env \<Rightarrow> ('w, 't) state \<Rightarrow> jsstring \<times> ('w, 't) state" where
  "now env s = (case date_now env (world s) of (t, w') \<Rightarrow> (t, s\<lparr>world := w'\<rparr>))"

text \<open>The \<open>push\<close> onto \<open>failedVideos\<close>, in the \<open>else\<close> branch and in the \<open>catch\<close> block alike.\<close>

definition pushFailed ::
  "('w, 't) env \<Rightarrow> video \<Rightarrow> jsstring \<Rightarrow> ledger_entry list \<Rightarrow> ('w, 't) state
     \<Rightarrow> ledger_entry list \<times> ('w, 't) state" where
  "pushFailed env v msg failedVideos s =
     (case now env s of
        (t, s') \<Rightarrow>
          (failedVideos @ [\<lparr>videoId = videoId v, title = title v, error = msg, timestamp = t\<rparr>], s'))"

text \<open>
  One iteration of the loop of \<open>transferVideos\<close>, from the state and the failures so far
  to the state and the failures after it. A rejected promise inside the \<open>try\<close> goes to
  the \<open>catch\<close> block; \<open>!sourceUrl\<close> holds for a missing and for an empty URL.
\<close>

definition transferVideos_body ::
  "('w, 't) env \<Rightarrow> video \<Rightarrow> ledger_entry list \<times> ('w, 't) state
     \<Rightarrow> ledger_entry list \<times> ('w, 't) state" where
  "transferVideos_body env v acc =
     (case acc of (failedVideos, s) \<Rightarrow>
       (case fetchVideoDetails env (videoId v) s of
          (Inl e, s1) \<Rightarrow> pushFailed env v (message e) failedVideos s1
        | (Inr None, s1) \<Rightarrow> (failedVideos, s1)
        | (Inr (Some sourceUrl), s1) \<Rightarrow>
            if sourceUrl = [] then (failedVideos, s1)
            else
              (case checkFileExists env (s3Key_transfer v) s1 of
                 (Inl e, s2) \<Rightarrow> pushFailed env v (message e) failedVideos s2
               | (Inr exists, s2) \<Rightarrow>
                   if exists then (failedVideos, s2)
                   else
                     (case streamToS3WithRetry env sourceUrl (s3Key_transfer v) (title v) 0 s2 of
                        (Success, s3) \<Rightarrow> (failedVideos, s3)
                      | (Failure msg, s3) \<Rightarrow> pushFailed env v msg failedVideos s3))))"

primrec transferVideos_from ::
  "('w, 't) env \<Rightarrow> video list \<Rightarrow> ledger_entry list \<times> ('w, 't) state
     \<Rightarrow> ledger_entry list \<times> ('w, 't) state" where
  "transferVideos_from env [] acc = acc"
| "transferVideos_from env (v # rest) acc = transferVideos_from env rest (transferVideos_body env v acc)"

definition transferVideos ::
  "('w, 't) env \<Rightarrow> video list \<Rightarrow> ('w, 't) state \<Rightarrow> ledger_entry list \<times> ('w, 't) state" where
  "transferVideos env videosToProcess s = transferVideos_from env videosToProcess ([], s)"

section \<open>Verifier\<close>

text \<open>\<open>if (marker) params.Marker = marker\<close>: a missing or empty marker is not sent.\<close>

definition markerParam :: "jsstring option \<Rightarrow> jsstring option" where
  "markerParam marker = (case marker of None \<Rightarrow> None | Some m \<Rightarrow> if m = [] then None else Some m)"

text \<open>
  The inner function \<open>listObjects\<close> of \<open>listS3Objects\<close>, with the array \<open>objects\<close> as an
  argument. A store that always answers with a truncated page keeps it running
  (\<open>None\<close>). A truncated page with no contents makes the callback throw a
  \<open>TypeError\<close>, which ends the process; the model reports it as a rejection.
\<close>

partial_function (option) listObjects ::
  "('w, 't) env \<Rightarrow> jsstring \<Rightarrow> s3_object list \<Rightarrow> jsstring option \<Rightarrow> ('w, 't) state
     \<Rightarrow> ((error + s3_object list) \<times> ('w, 't) state) option" where
  "listObjects env prefix objects marker s =
     (case call (ListObjects prefix (markerParam marker))
             (\<lambda>w. s3_listObjects env w prefix (markerParam marker)) s of
        (Inl err, s') \<Rightarrow> Some (Inl err, s')
      | (Inr data, s') \<Rightarrow>
          if IsTruncated data then
            (case Contents data of
               [] \<Rightarrow> Some (Inl (Error (js ''Cannot read properties of undefined'') None), s')
             | c # cs \<Rightarrow>
                 listObjects env prefix (objects @ Contents data)
                   (Some (Key (last (Contents data)))) s')
          else Some (Inr (objects @ Contents data), s'))"

definition listS3Objects ::
  "('w, 't) env \<Rightarrow> jsstring \<Rightarrow> ('w, 't) state
     \<Rightarrow> ((error + s3_object list) \<times> ('w, 't) state) option" where
  "listS3Objects env prefix s = listObjects env prefix [] None s"

text \<open>The loop over \<open>allVideos\<close> that collects \<open>missingVideos\<close>.\<close>

primrec checkEachVideo ::
  "jsstring set \<Rightarrow> video list \<Rightarrow> missing_video list \<Rightarrow> missing_video list" where
  "checkEachVideo s3Keys [] missingVideos = missingVideos"
| "checkEachVideo s3Keys (v # rest) missingVideos =
     checkEachVideo s3Keys rest
       (if expectedKey_verify v \<notin> s3Keys
        then missingVideos @
               [\<lparr>videoId = videoId v, title = title v, expectedKey = expectedKey_verify v\<rparr>]
        else missingVideos)"

text \<open>\<open>missingVideos.map(...)\<close>: each entry takes its own time stamp.\<close>

primrec missingForRetry ::
  "('w, 't) env \<Rightarrow> missing_video list \<Rightarrow> ('w, 't) state \<Rightarrow> ledger_entry list \<times> ('w, 't) state" where
  "missingForRetry env [] s = ([], s)"
| "missingForRetry env (v # rest) s =
     (case now env s of
        (t, s1) \<Rightarrow>
          (case missingForRetry env rest s1 of
             (entries, s2) \<Rightarrow>
               (\<lparr>videoId = videoId v, title = title v,
                 error = js ''Missing from S3 after verification'', timestamp = t\<rparr> # entries, s2)))"

definition verifyTransfer ::
  "('w, 't) env \<Rightarrow> ('w, 't) state
     \<Rightarrow> ((error + missing_video list) \<times> ('w, 't) state) option" where
  "verifyTransfer env s =
     (case fetchAllVideos env s of
        None \<Rightarrow> None
      | Some (Inl e, s1) \<Rightarrow> Some (Inl e, s1)
      | Some (Inr allVideos, s1) \<Rightarrow>
          (case listS3Objects env (js ''api-video-backup/'') s1 of
             None \<Rightarrow> None
           | Some (Inl e, s2) \<Rightarrow> Some (Inl e, s2)
           | Some (Inr s3Objects, s2) \<Rightarrow>
               (let s3Keys = set (map Key s3Objects);
                    missingVideos = checkEachVideo s3Keys allVideos []
                in if length missingVideos > 0 then
                     (case missingForRetry env missingVideos s2 of
                        (entries, s3) \<Rightarrow>
                          Some (Inr missingVideos, s3\<lparr>ledgerFile := File (json_stringify env entries)\<rparr>))
                   else Some (Inr missingVideos, clearFailedLog s2))))"

section \<open>Entry point\<close>

text \<open>
  \<open>main\<close> returns, or its \<open>catch\<close> block prints the message and calls \<open>process.exit(1)\<close>.
  The arguments are \<open>process.argv.slice(2)\<close>. The script reaches \<open>main\<close> only when all
  required environment variables are set; the model starts there.
\<close>

datatype exit_status = Returned | Exit1 jsstring

definition main ::
  "('w, 't) env \<Rightarrow> jsstring list \<Rightarrow> ('w, 't) state \<Rightarrow> (exit_status \<times> ('w, 't) state) option" where
  "main env args s =
     (let retryMode = (js ''--retry'' \<in> set args);
          retryFailed = (js ''--retry-failed'' \<in> set args);
          verifyMode = (js ''--verify'' \<in> set args)
      in if verifyMode then
           (case verifyTransfer env s of
              None \<Rightarrow> None
            | Some (Inl e, s') \<Rightarrow> Some (Exit1 (message e), s')
            | Some (Inr missing, s') \<Rightarrow> Some (Returned, s'))
         else if retryMode \<or> retryFailed then
           (let failedVideos = loadFailedVideos env s
            in if length failedVideos = 0 then Some (Returned, s)
               else
                 (case transferVideos env
                         (map (\<lambda>v. \<lparr>videoId = videoId v, title = title v\<rparr>) failedVideos) s of
                    (stillFailed, s') \<Rightarrow>
                      if length stillFailed = 0 then Some (Returned, clearFailedLog s')
                      else Some (Returned, saveFailedVideos env stillFailed s')))
         else
           (case fetchAllVideos env s of
              None \<Rightarrow> None
            | Some (Inl e, s1) \<Rightarrow> Some (Exit1 (message e), s1)
            | Some (Inr videos, s1) \<Rightarrow>
                (case transferVideos env videos s1 of
                   (failedVideos, s2) \<Rightarrow>
                     if length failedVideos = 0 then Some (Returned, clearFailedLog s2)
                     else Some (Returned, saveFailedVideos env failedVideos s2))))"

section \<open>Auxiliary notions for the statements\<close>

text \<open>The records of a page, none when \<open>response.data\<close> is missing.\<close>

definition pageRecords :: "video list option \<Rightarrow> video list" where
  "pageRecords pageData = (case pageData of None \<Rightarrow> [] | Some vs \<Rightarrow> vs)"

text \<open>
  A scripted environment, for running the model on concrete inputs. The world is a
  clock; the catalog, the store and the uploads answer as the given functions say, every
  download is answered with status 200, the store listing comes in one page, and the
  ledger text is the list of entries itself.
\<close>

definition scripted ::
  "(nat \<Rightarrow> video list option) \<Rightarrow> (jsstring \<Rightarrow> jsstring option) \<Rightarrow> (jsstring \<Rightarrow> error option)
     \<Rightarrow> (jsstring \<Rightarrow> error + unit) \<Rightarrow> s3_object list \<Rightarrow> (nat, ledger_entry list) env" where
  "scripted pages sources heads uploads objects =
     \<lparr>curl_videos = (\<lambda>w p. (Inr (pages p), w + 1)),
      curl_video = (\<lambda>w i. (Inr (sources i), w + 1)),
      https_get = (\<lambda>w u. (Inr \<lparr>statusCode = 200, contentLength = None\<rparr>, w + 1)),
      s3_upload = (\<lambda>w k l. (uploads k, w + 1)),
      s3_headObject = (\<lambda>w k. (heads k, w + 1)),
      s3_listObjects = (\<lambda>w p m. (Inr \<lparr>Contents = objects, IsTruncated = False\<rparr>, w + 1)),
      setTimeout = (\<lambda>w ms. w + ms),
      date_now = (\<lambda>w. (js ''2026-01-01T00:00:00.000Z'', w)),
      json_stringify = (\<lambda>entries. entries),
      json_parse = Some\<rparr>"

definition start :: "(nat, ledger_entry list) state" where
  "start = \<lparr>world = 0, ledgerFile = NoFile, trace = []\<rparr>"

text \<open>A catalog page of \<open>n\<close> records, told apart by the page number and their position.\<close>

definition catalogPage :: "nat \<Rightarrow> nat \<Rightarrow> video list" where
  "catalogPage n p = map (\<lambda>i. \<lparr>videoId = [of_nat p, of_nat i], title = None\<rparr>) [0..<n]"

text \<open>A listing with pages of sizes 100, 100 and 37, and empty pages after them.\<close>

definition threePages :: "nat \<Rightarrow> video list option" where
  "threePages p =
     (if p = 1 \<or> p = 2 then Some (catalogPage 100 p)
      else if p = 3 then Some (catalogPage 37 p)
      else Some [])"

definition notFound :: error where
  "notFound = Error (js ''Not Found'') (Some (js ''NotFound''))"

definition forbidden :: error where
  "forbidden = Error (js ''Access Denied'') (Some (js ''Forbidden''))"

definition slowDown :: error where
  "slowDown = Error (js ''Please reduce your request rate'') (Some (js ''SlowDown''))"

definition sampleVideo :: video where
  "sampleVideo = \<lparr>videoId = js ''vid1'', title = Some (js ''Intro'')\<rparr>"

definition sampleUrl :: jsstring where
  "sampleUrl = js ''https://cdn.example/vid1.mp4''"

definition otherVideo :: video where
  "otherVideo = \<lparr>videoId = js ''vid2'', title = Some (js ''Outro'')\<rparr>"

definition untitledVideo :: video where
  "untitledVideo = \<lparr>videoId = js ''vid3'', title = None\<rparr>"

definition sampleCatalog :: "nat \<Rightarrow> video list option" where
  "sampleCatalog p = (if p = 1 then Some [sampleVideo, otherVideo, untitledVideo] else Some [])"

text \<open>
  A catalog of three records, of which the third has no source URL, with a store that
  lists the given objects, answers every existence check with \<open>NotFound\<close> and accepts
  every upload.
\<close>

definition workingStore :: "s3_object list \<Rightarrow> (nat, ledger_entry list) env" where
  "workingStore objects =
     scripted sampleCatalog (\<lambda>i. if i = js ''vid3'' then None else Some sampleUrl)
       (\<lambda>k. Some notFound) (\<lambda>k. Inr ()) objects"

text \<open>The same catalog with a store that has no object yet and refuses every upload.\<close>

definition failingStore :: "(nat, ledger_entry list) env" where
  "failingStore =
     scripted sampleCatalog (\<lambda>i. if i = js ''vid3'' then None else Some sampleUrl)
       (\<lambda>k. Some notFound) (\<lambda>k. Inl slowDown) []"

text \<open>The objects a store holds once the given records have been transferred.\<close>

definition objectsFor :: "video list \<Rightarrow> s3_object list" where
  "objectsFor videos = map (\<lambda>v. \<lparr>Key = s3Key_transfer v\<rparr>) videos"

definition sampleEntry :: ledger_entry where
  "sampleEntry = \<lparr>videoId = js ''vid1'', title = Some (js ''Intro''),
                   error = js ''socket hang up'', timestamp = js ''2025-12-31T23:59:59.000Z''\<rparr>"

section \<open>Properties of the key mapper\<close>

lemmas key_defs =
  s3Key_transfer_def safeTitle_transfer_def sanitizeFilename_transfer_def
  expectedKey_verify_def safeTitle_verify_def sanitizeFilename_verify_def
  titleOrId_def orElse_def trim_def removeSpecial_def

lemmas char_defs = isAllowed_def isSpace_def js_def

text \<open>
  Claim C1. The key computed on the transfer path and the key computed on the verify path
  are the same function of the record, the two copies of the sanitizing closure are the
  same function, and the key is determined by the identifier and the title of the record
  alone.
\<close>

theorem key_paths_agree:
  "s3Key_transfer = expectedKey_verify
   \<and> sanitizeFilename_transfer = sanitizeFilename_verify
   \<and> (\<forall>v. s3Key_transfer v = expectedKey_verify \<lparr>videoId = videoId v, title = title v\<rparr>)"
  by (simp add: fun_eq_iff s3Key_transfer_def expectedKey_verify_def safeTitle_transfer_def
      safeTitle_verify_def sanitizeFilename_transfer_def sanitizeFilename_verify_def
      titleOrId_def split: option.split)

theorem key_paths_agree_witness:
  "s3Key_transfer \<lparr>videoId = js ''vid123'', title = Some (js ''My  Video?'')\<rparr>
     = expectedKey_verify \<lparr>videoId = js ''vid123'', title = Some (js ''My  Video?'')\<rparr>
   \<and> expectedKey_verify \<lparr>videoId = js ''vid123'', title = Some (js ''My  Video?'')\<rparr>
     = js ''api-video-backup/My Video - vid123''"
  using key_paths_agree by (simp add: key_defs char_defs)

text \<open>
  Claim C2, as stated, fails on its example: the code unit U+00C9 of the title is outside
  the class and is deleted, not turned into the letter E.
\<close>

theorem sanitize_example_counterexample:
  "s3Key_transfer \<lparr>videoId = js ''vid123'', title = Some (0xC9 # js ''pisode #1!'')\<rparr>
     = js ''api-video-backup/pisode 1 - vid123''
   \<and> s3Key_transfer \<lparr>videoId = js ''vid123'', title = Some (0xC9 # js ''pisode #1!'')\<rparr>
     \<noteq> js ''api-video-backup/Episode 1 - vid123''"
  by (simp add: key_defs char_defs)

text \<open>
  Claim C2, amended. For a nonempty title made only of code units outside the class, the
  sanitized title falls back to the identifier, so the key is the prefix, the identifier,
  the separator and the identifier again; and the title of the example with identifier
  vid123 gives the key suffix \<open>pisode 1 - vid123\<close>.
\<close>

theorem sanitize_fallback:
  assumes "title v = Some t" and "t \<noteq> []" and "\<forall>c\<in>set t. \<not> isAllowed c"
  shows "safeTitle_transfer v = videoId v
         \<and> s3Key_transfer v = js ''api-video-backup/'' @ videoId v @ js '' - '' @ videoId v
         \<and> s3Key_transfer \<lparr>videoId = js ''vid123'', title = Some (0xC9 # js ''pisode #1!'')\<rparr>
             = js ''api-video-backup/'' @ js ''pisode 1 - vid123''"
proof -
  from assms have "removeSpecial t = []"
    by (simp add: removeSpecial_def)
  with assms have fallback: "safeTitle_transfer v = videoId v"
    by (simp add: safeTitle_transfer_def sanitizeFilename_transfer_def titleOrId_def
        orElse_def trim_def)
  have example:
    "s3Key_transfer \<lparr>videoId = js ''vid123'', title = Some (0xC9 # js ''pisode #1!'')\<rparr>
       = js ''api-video-backup/'' @ js ''pisode 1 - vid123''"
    by (simp add: key_defs char_defs)
  from fallback example show ?thesis
    by (simp add: s3Key_transfer_def)
qed

theorem sanitize_fallback_witness:
  "title \<lparr>videoId = js ''vid123'', title = Some (js ''#!?'')\<rparr> = Some (js ''#!?'')
   \<and> js ''#!?'' \<noteq> []
   \<and> \<not> isAllowed (of_char CHR ''#'') \<and> \<not> isAllowed (of_char CHR ''!'')
   \<and> \<not> isAllowed (of_char CHR ''?'')
   \<and> s3Key_transfer \<lparr>videoId = js ''vid123'', title = Some (js ''#!?'')\<rparr>
       = js ''api-video-backup/vid123 - vid123''"
proof -
  have h: "\<forall>c\<in>set (js ''#!?''). \<not> isAllowed c"
    by (simp add: char_defs)
  from sanitize_fallback [of "\<lparr>videoId = js ''vid123'', title = Some (js ''#!?'')\<rparr>" "js ''#!?''"] h
  show ?thesis
    by (simp add: js_def)
qed

text \<open>
  Claim C3, as stated, fails: an identifier is an arbitrary string, and when one of two
  identifiers contains the separator the two keys can coincide.
\<close>

theorem key_collision_counterexample:
  "videoId \<lparr>videoId = js ''b'', title = Some (js ''a - a'')\<rparr>
     \<noteq> videoId \<lparr>videoId = js ''a - b'', title = Some (js ''a'')\<rparr>
   \<and> s3Key_transfer \<lparr>videoId = js ''b'', title = Some (js ''a - a'')\<rparr>
     = s3Key_transfer \<lparr>videoId = js ''a - b'', title = Some (js ''a'')\<rparr>"
  by (simp add: key_defs char_defs)

lemma takeWhile_until: "c \<notin> set xs \<Longrightarrow> takeWhile (\<lambda>x. x \<noteq> c) (xs @ c # ys) = xs"
  by (induction xs) auto

lemma suffix_after_last_space:
  assumes "0x20 \<notin> set x" and "0x20 \<notin> set y" and "a @ [0x20 :: jschar] @ x = b @ [0x20] @ y"
  shows "x = y"
proof -
  have last_part: "takeWhile (\<lambda>c. c \<noteq> 0x20) (rev (p @ [0x20] @ z)) = rev z"
    if "0x20 \<notin> set z" for p z :: jsstring
    using that by (simp add: takeWhile_until)
  from assms(3) have "takeWhile (\<lambda>c. c \<noteq> 0x20) (rev (a @ [0x20] @ x))
      = takeWhile (\<lambda>c. c \<noteq> 0x20) (rev (b @ [0x20] @ y))"
    by (rule arg_cong)
  then have "rev x = rev y"
    by (simp only: last_part [OF assms(1)] last_part [OF assms(2)])
  then show ?thesis by simp
qed

lemma s3Key_ends_with_id:
  "s3Key_transfer v = (js ''api-video-backup/'' @ safeTitle_transfer v @ [0x20, 0x2D]) @ [0x20] @ videoId v"
  by (simp add: s3Key_transfer_def js_def)

text \<open>
  Claim C3, amended. For two records whose identifiers are distinct and contain no space
  (U+0020), the keys are distinct, whatever the titles are, also when both titles sanitize
  to the same string.
\<close>

theorem keys_distinct:
  assumes "videoId v1 \<noteq> videoId v2"
    and "0x20 \<notin> set (videoId v1)" and "0x20 \<notin> set (videoId v2)"
  shows "s3Key_transfer v1 \<noteq> s3Key_transfer v2"
proof
  assume "s3Key_transfer v1 = s3Key_transfer v2"
  then have "(js ''api-video-backup/'' @ safeTitle_transfer v1 @ [0x20, 0x2D]) @ [0x20] @ videoId v1
           = (js ''api-video-backup/'' @ safeTitle_transfer v2 @ [0x20, 0x2D]) @ [0x20] @ videoId v2"
    by (simp only: s3Key_ends_with_id)
  with assms(2,3) have "videoId v1 = videoId v2"
    by (rule suffix_after_last_space)
  with assms(1) show False by simp
qed

theorem keys_distinct_witness:
  "videoId \<lparr>videoId = js ''vid1'', title = Some (js ''Intro!'')\<rparr>
     \<noteq> videoId \<lparr>videoId = js ''vid2'', title = Some (js ''Intro?'')\<rparr>
   \<and> 0x20 \<notin> set (js ''vid1'') \<and> 0x20 \<notin> set (js ''vid2'')
   \<and> safeTitle_transfer \<lparr>videoId = js ''vid1'', title = Some (js ''Intro!'')\<rparr>
       = safeTitle_transfer \<lparr>videoId = js ''vid2'', title = Some (js ''Intro?'')\<rparr>
   \<and> s3Key_transfer \<lparr>videoId = js ''vid1'', title = Some (js ''Intro!'')\<rparr>
       \<noteq> s3Key_transfer \<lparr>videoId = js ''vid2'', title = Some (js ''Intro?'')\<rparr>"
proof -
  have ids: "videoId \<lparr>videoId = js ''vid1'', title = Some (js ''Intro!'')\<rparr>
     \<noteq> videoId \<lparr>videoId = js ''vid2'', title = Some (js ''Intro?'')\<rparr>"
    by (simp add: js_def)
  have sp1: "0x20 \<notin> set (videoId \<lparr>videoId = js ''vid1'', title = Some (js ''Intro!'')\<rparr>)"
    by (simp add: js_def)
  have sp2: "0x20 \<notin> set (videoId \<lparr>videoId = js ''vid2'', title = Some (js ''Intro?'')\<rparr>)"
    by (simp add: js_def)
  have same: "safeTitle_transfer \<lparr>videoId = js ''vid1'', title = Some (js ''Intro!'')\<rparr>
       = safeTitle_transfer \<lparr>videoId = js ''vid2'', title = Some (js ''Intro?'')\<rparr>"
    by (simp add: key_defs char_defs)
  from keys_distinct [OF ids sp1 sp2] ids sp1 sp2 same show ?thesis
    by simp
qed

section \<open>Properties of the catalog client\<close>

lemma fetchVideoPage_served:
  assumes "\<forall>w q. fst (curl_videos env w q) = Inr (pages q)"
  shows "\<exists>s'. fetchVideoPage env p s = (Inr (pages p), s')
            \<and> trace s' = trace s @ [FetchPage p] \<and> ledgerFile s' = ledgerFile s"
proof -
  obtain r w' where c: "curl_videos env (world s) p = (r, w')"
    by (cases "curl_videos env (world s) p")
  with assms have "r = Inr (pages p)"
    by (metis fst_conv)
  with c show ?thesis
    by (simp add: fetchVideoPage_def call_def)
qed

lemma fetchAllVideos_loop_pages:
  assumes served: "\<forall>w q. fst (curl_videos env w q) = Inr (pages q)"
    and full: "\<forall>i<k. length (pageRecords (pages (p + i))) = 100"
    and short: "length (pageRecords (pages (p + k))) \<noteq> 100"
  shows "\<exists>s'. fetchAllVideos_loop env acc p s
               = Some (Inr (acc @ concat (map (\<lambda>q. pageRecords (pages q)) [p..<p + k + 1])), s')
            \<and> trace s' = trace s @ map FetchPage [p..<p + k + 1]
            \<and> ledgerFile s' = ledgerFile s"
  using full short
proof (induction k arbitrary: acc p s)
  case 0
  obtain s1 where s1: "fetchVideoPage env p s = (Inr (pages p), s1)"
    "trace s1 = trace s @ [FetchPage p]" "ledgerFile s1 = ledgerFile s"
    using fetchVideoPage_served [OF served] by blast
  from 0 have "length (pageRecords (pages p)) \<noteq> 100" by simp
  with s1 show ?case
    by (subst fetchAllVideos_loop.simps) (auto simp: pageRecords_def split: option.splits)
next
  case (Suc k)
  obtain s1 where s1: "fetchVideoPage env p s = (Inr (pages p), s1)"
    "trace s1 = trace s @ [FetchPage p]" "ledgerFile s1 = ledgerFile s"
    using fetchVideoPage_served [OF served] by blast
  from Suc.prems(1) have len: "length (pageRecords (pages p)) = 100"
    by (metis add.right_neutral zero_less_Suc)
  then obtain vs where vs: "pages p = Some vs" "length vs = 100"
    by (cases "pages p") (auto simp: pageRecords_def)
  have step: "fetchAllVideos_loop env acc p s = fetchAllVideos_loop env (acc @ vs) (p + 1) s1"
    using s1(1) vs by (subst fetchAllVideos_loop.simps) simp
  have full': "\<forall>i<k. length (pageRecords (pages (p + 1 + i))) = 100"
    using Suc.prems(1) by (metis Suc_less_eq add_Suc_right add_Suc_shift Suc_eq_plus1)
  have short': "length (pageRecords (pages (p + 1 + k))) \<noteq> 100"
    using Suc.prems(2) by simp
  obtain s' where s': "fetchAllVideos_loop env (acc @ vs) (p + 1) s1
        = Some (Inr ((acc @ vs) @ concat (map (\<lambda>q. pageRecords (pages q)) [p + 1..<p + 1 + k + 1])), s')"
      "trace s' = trace s1 @ map FetchPage [p + 1..<p + 1 + k + 1]"
      "ledgerFile s' = ledgerFile s1"
    using Suc.IH [OF full' short'] by blast
  have upt: "[p..<p + Suc k + 1] = p # [p + 1..<p + 1 + k + 1]"
    by (simp add: upt_conv_Cons)
  show ?case
    unfolding step upt using s' s1 vs by (simp add: pageRecords_def)
qed

lemma length_full_pages:
  "\<forall>i<k. length (f (p + i)) = c \<Longrightarrow> length (concat (map f [p..<p + k])) = c * k"
proof (induction k)
  case 0
  then show ?case by simp
next
  case (Suc k)
  then have "length (concat (map f [p..<p + k])) = c * k" by simp
  moreover from Suc.prems have "length (f (p + k)) = c" by simp
  ultimately show ?case by simp
qed

text \<open>
  Claim C5. On a catalog that answers the request for page \<open>q\<close> with \<open>pages q\<close>, where
  the pages 1 to \<open>k\<close> hold 100 records each and page \<open>k + 1\<close> does not (it is shorter, empty
  or missing), \<open>fetchAllVideos\<close> returns; it has requested exactly the pages 1 to \<open>k + 1\<close>
  in this order, and it yields the records of these pages in order,
  \<open>100 * k\<close> plus the length of the last page in number. For pages of sizes 100, 100 and 37
  these are 3 requests and 237 records.
\<close>

theorem fetchAllVideos_pagination:
  assumes served: "\<forall>w q. fst (curl_videos env w q) = Inr (pages q)"
    and full: "\<forall>i<k. length (pageRecords (pages (1 + i))) = 100"
    and short: "length (pageRecords (pages (1 + k))) \<noteq> 100"
  shows "\<exists>s'. fetchAllVideos env s
               = Some (Inr (concat (map (\<lambda>q. pageRecords (pages q)) [1..<k + 2])), s')
            \<and> trace s' = trace s @ map FetchPage [1..<k + 2]
            \<and> length (concat (map (\<lambda>q. pageRecords (pages q)) [1..<k + 2]))
                = 100 * k + length (pageRecords (pages (k + 1)))"
proof -
  from fetchAllVideos_loop_pages [OF served full short, of "[]" s]
  obtain s' where "fetchAllVideos env s
               = Some (Inr (concat (map (\<lambda>q. pageRecords (pages q)) [1..<k + 2])), s')"
      "trace s' = trace s @ map FetchPage [1..<k + 2]"
    by (auto simp: fetchAllVideos_def add.commute)
  moreover have "length (concat (map (\<lambda>q. pageRecords (pages q)) [1..<1 + k])) = 100 * k"
    using full by (rule length_full_pages)
  then have "length (concat (map (\<lambda>q. pageRecords (pages q)) [1..<k + 2]))
                = 100 * k + length (pageRecords (pages (k + 1)))"
    by (simp add: add.commute)
  ultimately show ?thesis by blast
qed

theorem fetchAllVideos_pagination_witness:
  "(\<forall>w q. fst (curl_videos (scripted threePages Map.empty Map.empty (\<lambda>k. Inr ()) []) w q)
             = Inr (threePages q))
   \<and> length (pageRecords (threePages 1)) = 100
   \<and> length (pageRecords (threePages 2)) = 100
   \<and> length (pageRecords (threePages 3)) = 37
   \<and> (\<exists>s'. fetchAllVideos (scripted threePages Map.empty Map.empty (\<lambda>k. Inr ()) []) start
              = Some (Inr (catalogPage 100 1 @ catalogPage 100 2 @ catalogPage 37 3), s')
          \<and> trace s' = [FetchPage 1, FetchPage 2, FetchPage 3])
   \<and> length (catalogPage 100 1 @ catalogPage 100 2 @ catalogPage 37 3) = 237"
proof -
  let ?env = "scripted threePages Map.empty Map.empty (\<lambda>k. Inr ()) []"
  have served: "\<forall>w q. fst (curl_videos ?env w q) = Inr (threePages q)"
    by (simp add: scripted_def)
  have full: "\<forall>i<2. length (pageRecords (threePages (1 + i))) = 100"
    by (auto simp: pageRecords_def threePages_def catalogPage_def less_Suc_eq numeral_2_eq_2)
  have short: "length (pageRecords (threePages (1 + 2))) \<noteq> 100"
    by (simp add: pageRecords_def threePages_def catalogPage_def)
  have pages: "[1..<2 + 2] = [1, 2, 3::nat]"
    by (simp add: upt_conv_Cons)
  from fetchAllVideos_pagination [OF served full short, of start] served
  show ?thesis
    unfolding pages
    by (simp add: pageRecords_def threePages_def start_def) (simp add: catalogPage_def)
qed

section \<open>Properties of the store client and of the retry loop\<close>

text \<open>
  Claim C6. \<open>checkFileExists\<close> never rejects: whatever \<open>headObject\<close> answers, the promise is
  resolved, with \<open>true\<close> exactly when the request came back without an error, hence with
  \<open>false\<close> for the error with code \<open>NotFound\<close> and for every other error. It makes this one
  request and leaves the ledger file alone.
\<close>

theorem checkFileExists_total:
  "\<exists>s'. checkFileExists env s3Key s
           = (Inr (fst (s3_headObject env (world s) s3Key) = None), s')
        \<and> trace s' = trace s @ [HeadObject s3Key]
        \<and> ledgerFile s' = ledgerFile s"
  by (cases "s3_headObject env (world s) s3Key") (auto simp: checkFileExists_def call_def)

theorem checkFileExists_total_witness:
  "fst (checkFileExists
          (scripted threePages Map.empty
             (\<lambda>k. if k = js ''a'' then Some notFound else if k = js ''b'' then Some forbidden else None)
             (\<lambda>k. Inr ()) [])
          (js ''a'') start) = Inr False
   \<and> fst (checkFileExists
          (scripted threePages Map.empty
             (\<lambda>k. if k = js ''a'' then Some notFound else if k = js ''b'' then Some forbidden else None)
             (\<lambda>k. Inr ()) [])
          (js ''b'') start) = Inr False
   \<and> fst (checkFileExists
          (scripted threePages Map.empty
             (\<lambda>k. if k = js ''a'' then Some notFound else if k = js ''b'' then Some forbidden else None)
             (\<lambda>k. Inr ()) [])
          (js ''c'') start) = Inr True"
proof -
  let ?env = "scripted threePages Map.empty
             (\<lambda>k. if k = js ''a'' then Some notFound else if k = js ''b'' then Some forbidden else None)
             (\<lambda>k. Inr ()) []"
  from checkFileExists_total [of ?env "js ''a''" start]
       checkFileExists_total [of ?env "js ''b''" start]
       checkFileExists_total [of ?env "js ''c''" start]
  show ?thesis
    by (auto simp: scripted_def js_def)
qed

lemma streamToS3_effect:
  "\<exists>r s'. streamToS3 env u k t s = (r, s') \<and> trace s' = trace s @ [StreamAttempt u k]
          \<and> ledgerFile s' = ledgerFile s"
  by (auto simp: streamToS3_def call_def split: prod.splits sum.splits)

lemma delay_effect:
  "trace (delay env ms s) = trace s @ [Delay ms] \<and> ledgerFile (delay env ms s) = ledgerFile s"
  by (simp add: delay_def call_def)

lemma retry_always_failing:
  assumes fails: "\<forall>s. \<exists>e s'. streamToS3 env u k t s = (Inl e, s')"
  shows "MAX_RETRIES - r = n \<Longrightarrow>
         \<exists>e s0 s'. streamToS3WithRetry env u k t r s = (Failure (message e), s')
            \<and> streamToS3 env u k t s0 = (Inl e, s')
            \<and> trace s' = trace s @ StreamAttempt u k # concat (replicate n [Delay RETRY_DELAY, StreamAttempt u k])
            \<and> ledgerFile s' = ledgerFile s"
proof (induction n arbitrary: r s)
  case 0
  obtain e s1 where a: "streamToS3 env u k t s = (Inl e, s1)"
    using fails by blast
  with streamToS3_effect [of env u k t s]
  have "trace s1 = trace s @ [StreamAttempt u k]" "ledgerFile s1 = ledgerFile s"
    by auto
  moreover from 0 a have "streamToS3WithRetry env u k t r s = (Failure (message e), s1)"
    by (subst streamToS3WithRetry.simps) simp
  ultimately show ?case using a by auto
next
  case (Suc n)
  obtain e s1 where a: "streamToS3 env u k t s = (Inl e, s1)"
    using fails by blast
  with streamToS3_effect [of env u k t s]
  have s1: "trace s1 = trace s @ [StreamAttempt u k]" "ledgerFile s1 = ledgerFile s"
    by auto
  from Suc.prems have lt: "r < MAX_RETRIES" and n: "MAX_RETRIES - (r + 1) = n"
    by arith+
  from a lt have step: "streamToS3WithRetry env u k t r s
      = streamToS3WithRetry env u k t (r + 1) (delay env RETRY_DELAY s1)"
    by (subst streamToS3WithRetry.simps) simp
  from Suc.IH [OF n, of "delay env RETRY_DELAY s1"] s1 show ?case
    unfolding step by (auto simp: delay_effect)
qed

text \<open>
  Claim C4. Let the record have a source URL and no object in the store yet, and let every
  streaming attempt for it fail. Then \<open>streamToS3WithRetry\<close> makes exactly
  \<open>1 + MAX_RETRIES = 4\<close> attempts with a delay of 5000 ms between consecutive attempts and
  nothing else, and reports the message of the error of the last attempt; the loop of
  \<open>transferVideos\<close> appends the entry with the identifier, the title, this message and the
  time stamp to the failures and goes on with the rest of the list.
\<close>

theorem retry_exhaustion:
  assumes fails: "\<forall>s. \<exists>e s'. streamToS3 env sourceUrl (s3Key_transfer v) (title v) s = (Inl e, s')"
    and details: "fetchVideoDetails env (videoId v) s = (Inr (Some sourceUrl), s1)"
    and url: "sourceUrl \<noteq> []"
    and head: "checkFileExists env (s3Key_transfer v) s1 = (Inr False, s2)"
  shows "\<exists>e s0 s3 t s4.
           streamToS3WithRetry env sourceUrl (s3Key_transfer v) (title v) 0 s2 = (Failure (message e), s3)
         \<and> streamToS3 env sourceUrl (s3Key_transfer v) (title v) s0 = (Inl e, s3)
         \<and> trace s3 = trace s2 @
               [StreamAttempt sourceUrl (s3Key_transfer v), Delay 5000,
                StreamAttempt sourceUrl (s3Key_transfer v), Delay 5000,
                StreamAttempt sourceUrl (s3Key_transfer v), Delay 5000,
                StreamAttempt sourceUrl (s3Key_transfer v)]
         \<and> 1 + MAX_RETRIES = 4
         \<and> now env s3 = (t, s4)
         \<and> transferVideos_body env v (failedVideos, s)
             = (failedVideos @
                  [\<lparr>videoId = videoId v, title = title v, error = message e, timestamp = t\<rparr>], s4)
         \<and> transferVideos_from env (v # rest) (failedVideos, s)
             = transferVideos_from env rest
                 (failedVideos @
                    [\<lparr>videoId = videoId v, title = title v, error = message e, timestamp = t\<rparr>], s4)"
proof -
  have "MAX_RETRIES - 0 = 3"
    by (simp add: MAX_RETRIES_def)
  from retry_always_failing [OF fails this, of s2]
  obtain e s0 s3 where
    retry: "streamToS3WithRetry env sourceUrl (s3Key_transfer v) (title v) 0 s2 = (Failure (message e), s3)"
    and last: "streamToS3 env sourceUrl (s3Key_transfer v) (title v) s0 = (Inl e, s3)"
    and tr: "trace s3 = trace s2 @ StreamAttempt sourceUrl (s3Key_transfer v) #
               concat (replicate 3 [Delay RETRY_DELAY, StreamAttempt sourceUrl (s3Key_transfer v)])"
    by blast
  obtain t s4 where time: "now env s3 = (t, s4)"
    by (cases "now env s3")
  have body: "transferVideos_body env v (failedVideos, s)
             = (failedVideos @
                  [\<lparr>videoId = videoId v, title = title v, error = message e, timestamp = t\<rparr>], s4)"
    using details url head retry time by (simp add: transferVideos_body_def pushFailed_def)
  have "trace s3 = trace s2 @
               [StreamAttempt sourceUrl (s3Key_transfer v), Delay 5000,
                StreamAttempt sourceUrl (s3Key_transfer v), Delay 5000,
                StreamAttempt sourceUrl (s3Key_transfer v), Delay 5000,
                StreamAttempt sourceUrl (s3Key_transfer v)]"
    using tr by (simp add: numeral_3_eq_3 RETRY_DELAY_def)
  moreover have "1 + MAX_RETRIES = 4"
    by (simp add: MAX_RETRIES_def)
  ultimately show ?thesis
    using retry last time body by (intro exI [of _ e] exI [of _ s0] exI [of _ s3] exI [of _ t] exI [of _ s4]) simp
qed


theorem retry_exhaustion_witness:
  "(\<forall>s. \<exists>e s'. streamToS3 failingStore sampleUrl (s3Key_transfer sampleVideo) (title sampleVideo) s
              = (Inl e, s'))
   \<and> fst (fetchVideoDetails failingStore (videoId sampleVideo) start) = Inr (Some sampleUrl)
   \<and> sampleUrl \<noteq> []
   \<and> fst (checkFileExists failingStore (s3Key_transfer sampleVideo)
            (snd (fetchVideoDetails failingStore (videoId sampleVideo) start))) = Inr False
   \<and> fst (transferVideos failingStore [sampleVideo] start)
       = [\<lparr>videoId = js ''vid1'', title = Some (js ''Intro''),
           error = js ''Please reduce your request rate'',
           timestamp = js ''2026-01-01T00:00:00.000Z''\<rparr>]
   \<and> trace (snd (transferVideos failingStore [sampleVideo] start))
       = [FetchDetails (js ''vid1''), HeadObject (js ''api-video-backup/Intro - vid1''),
          StreamAttempt sampleUrl (js ''api-video-backup/Intro - vid1''), Delay 5000,
          StreamAttempt sampleUrl (js ''api-video-backup/Intro - vid1''), Delay 5000,
          StreamAttempt sampleUrl (js ''api-video-backup/Intro - vid1''), Delay 5000,
          StreamAttempt sampleUrl (js ''api-video-backup/Intro - vid1'')]"
proof -
  let ?s1 = "snd (fetchVideoDetails failingStore (videoId sampleVideo) start)"
  let ?s2 = "snd (checkFileExists failingStore (s3Key_transfer sampleVideo) ?s1)"
  have fails: "\<forall>s. \<exists>e s'. streamToS3 failingStore sampleUrl (s3Key_transfer sampleVideo)
                  (title sampleVideo) s = (Inl e, s')"
    by (simp add: streamToS3_def failingStore_def scripted_def call_def)
  have d1: "fst (fetchVideoDetails failingStore (videoId sampleVideo) start) = Inr (Some sampleUrl)"
    by (simp add: fetchVideoDetails_def failingStore_def scripted_def call_def sampleVideo_def js_def)
  then have details: "fetchVideoDetails failingStore (videoId sampleVideo) start = (Inr (Some sampleUrl), ?s1)"
    by (simp add: prod_eq_iff)
  have url: "sampleUrl \<noteq> []"
    by (simp add: sampleUrl_def js_def)
  have h1: "fst (checkFileExists failingStore (s3Key_transfer sampleVideo) ?s1) = Inr False"
    by (simp add: checkFileExists_def failingStore_def scripted_def call_def)
  then have head: "checkFileExists failingStore (s3Key_transfer sampleVideo) ?s1 = (Inr False, ?s2)"
    by (simp add: prod_eq_iff)
  have key: "s3Key_transfer sampleVideo = js ''api-video-backup/Intro - vid1''"
    by (simp add: sampleVideo_def key_defs char_defs)
  have tr2: "trace ?s2 = [FetchDetails (js ''vid1''), HeadObject (js ''api-video-backup/Intro - vid1'')]"
    unfolding key
    by (simp add: checkFileExists_def fetchVideoDetails_def failingStore_def scripted_def call_def
        start_def sampleVideo_def)
  from retry_exhaustion [OF fails details url head, of "[]" "[]"]
  obtain e s0 s3 t s4 where
    last: "streamToS3 failingStore sampleUrl (s3Key_transfer sampleVideo) (title sampleVideo) s0 = (Inl e, s3)"
    and tr: "trace s3 = trace ?s2 @
               [StreamAttempt sampleUrl (s3Key_transfer sampleVideo), Delay 5000,
                StreamAttempt sampleUrl (s3Key_transfer sampleVideo), Delay 5000,
                StreamAttempt sampleUrl (s3Key_transfer sampleVideo), Delay 5000,
                StreamAttempt sampleUrl (s3Key_transfer sampleVideo)]"
    and time: "now failingStore s3 = (t, s4)"
    and body: "transferVideos_body failingStore sampleVideo ([], start)
             = ([] @ [\<lparr>videoId = videoId sampleVideo, title = title sampleVideo,
                      error = message e, timestamp = t\<rparr>], s4)"
    by blast
  from last have e: "message e = js ''Please reduce your request rate''"
    by (auto simp: streamToS3_def failingStore_def scripted_def call_def slowDown_def)
  from time have t: "t = js ''2026-01-01T00:00:00.000Z''" and s4: "trace s4 = trace s3"
    by (auto simp: now_def failingStore_def scripted_def)
  have run: "transferVideos failingStore [sampleVideo] start
      = ([\<lparr>videoId = js ''vid1'', title = Some (js ''Intro''),
           error = js ''Please reduce your request rate'',
           timestamp = js ''2026-01-01T00:00:00.000Z''\<rparr>], s4)"
    using body e t by (simp add: transferVideos_def sampleVideo_def)
  from fails d1 url h1 run s4 tr tr2 show ?thesis
    unfolding key by simp
qed

section \<open>Properties of the ledger and of the entry point\<close>

text \<open>
  Claim C10. In retry mode (one of the two retry flags and no verify flag, which would
  take precedence), with the ledger file absent, unreadable, not parsable or holding the
  empty list, \<open>main\<close> returns and the whole state is as before: no event is added to the
  trace, so no detail fetch, existence check or upload was made, the world is unchanged
  and so is the ledger file.
\<close>

theorem retry_mode_nothing_to_retry:
  assumes "js ''--verify'' \<notin> set args"
    and "js ''--retry'' \<in> set args \<or> js ''--retry-failed'' \<in> set args"
    and "ledgerFile s = NoFile \<or> ledgerFile s = Unreadable
         \<or> (\<exists>data. ledgerFile s = File data
                \<and> (json_parse env data = None \<or> json_parse env data = Some []))"
  shows "main env args s = Some (Returned, s)"
proof -
  from assms(3) have "loadFailedVideos env s = []"
    by (auto simp: loadFailedVideos_def)
  with assms(1,2) show ?thesis
    by (auto simp: main_def)
qed

theorem retry_mode_nothing_to_retry_witness:
  "js ''--verify'' \<notin> set [js ''--retry'']
   \<and> js ''--retry'' \<in> set [js ''--retry'']
   \<and> ledgerFile start = NoFile
   \<and> main (workingStore []) [js ''--retry''] start = Some (Returned, start)
   \<and> main (workingStore []) [js ''--retry''] (start\<lparr>ledgerFile := Unreadable\<rparr>)
       = Some (Returned, start\<lparr>ledgerFile := Unreadable\<rparr>)
   \<and> main (workingStore []) [js ''--retry''] (start\<lparr>ledgerFile := File []\<rparr>)
       = Some (Returned, start\<lparr>ledgerFile := File []\<rparr>)"
proof -
  have flags: "js ''--verify'' \<notin> set [js ''--retry'']"
     "js ''--retry'' \<in> set [js ''--retry''] \<or> js ''--retry-failed'' \<in> set [js ''--retry'']"
    by (simp_all add: js_def)
  have parse: "json_parse (workingStore []) [] = Some []"
    by (simp add: workingStore_def scripted_def)
  from retry_mode_nothing_to_retry [OF flags, of start "workingStore []"]
       retry_mode_nothing_to_retry [OF flags, of "start\<lparr>ledgerFile := Unreadable\<rparr>" "workingStore []"]
       retry_mode_nothing_to_retry [OF flags, of "start\<lparr>ledgerFile := File []\<rparr>" "workingStore []"]
       flags parse
  show ?thesis
    by (simp add: start_def)
qed

section \<open>Running the scripted environment\<close>













lemmas sample_defs =
  sampleVideo_def otherVideo_def untitledVideo_def sampleUrl_def sampleEntry_def
  sampleCatalog_def objectsFor_def start_def notFound_def slowDown_def forbidden_def

section \<open>Items without a source URL\<close>












section \<open>Properties of the verifier\<close>




section \<open>Round trip and removal of the ledger\<close>






end
